theory Spec2Isabelle
  imports Complex_Main "HOL-Library.Word" "HOL-Library.AList"
begin

section \<open>JavaScript values\<close>

text \<open>
  The service (\<^verbatim>\<open>src/ChatAnalyzer/index.js\<close>) is three Express handlers over JSON
  values. A JavaScript string is a sequence of UTF-16 code units; \<^verbatim>\<open>length\<close>,
  \<^verbatim>\<open>substring\<close>, \<^verbatim>\<open>trim\<close> and \<^verbatim>\<open>split\<close> all count and cut code units.
  Property names are the ASCII identifiers of the source and stay HOL strings.
\<close>

type_synonym jsstr = "16 word list"

definition lit :: "string \<Rightarrow> jsstr" where
  "lit s = map of_char s"

text \<open>A JavaScript number is a double: not-a-number, an infinity, or a finite value
  (the two zeros are not told apart; both are falsy).\<close>

datatype jsnum = NaN | PosInf | NegInf | Fin rat

datatype jsval =
    JUndefined
  | JNull
  | JBool bool
  | JNum jsnum
  | JStr jsstr
  | JArr "jsval list"
  | JObj "(string \<times> jsval) list"

text \<open>\<^verbatim>\<open>!v\<close>: the falsy values are \<^verbatim>\<open>undefined\<close>, \<^verbatim>\<open>null\<close>, \<^verbatim>\<open>false\<close>, \<^verbatim>\<open>NaN\<close>,
  zero and the empty string. Every object and array is truthy.\<close>

fun falsy :: "jsval \<Rightarrow> bool" where
  "falsy JUndefined = True"
| "falsy JNull = True"
| "falsy (JBool b) = (b = False)"
| "falsy (JNum n) = (n = NaN \<or> n = Fin 0)"
| "falsy (JStr s) = (s = [])"
| "falsy (JArr xs) = False"
| "falsy (JObj kvs) = False"

text \<open>\<^verbatim>\<open>a || b\<close>.\<close>

definition js_or :: "jsval \<Rightarrow> jsval \<Rightarrow> jsval" where
  "js_or a b = (if falsy a then b else a)"

text \<open>A thrown value: the handlers read only \<^verbatim>\<open>name\<close> and \<^verbatim>\<open>message\<close> of what
  they catch.\<close>

datatype jserror = JsError (err_name: jsstr) (err_message: jsstr)

definition type_error :: "jsstr \<Rightarrow> jserror" where
  "type_error msg = JsError (lit ''TypeError'') msg"

text \<open>
  \<^verbatim>\<open>v.k\<close> for the property names the handlers read (\<^verbatim>\<open>question\<close>,
  \<^verbatim>\<open>analysisContext\<close>, \<^verbatim>\<open>textExtraction\<close>, \<^verbatim>\<open>analysis\<close>, \<^verbatim>\<open>raw\<close>, \<^verbatim>\<open>summary\<close>,
  \<^verbatim>\<open>sentiment\<close>, \<^verbatim>\<open>topics\<close>, \<^verbatim>\<open>language\<close>, \<^verbatim>\<open>wordCount\<close>, \<^verbatim>\<open>characterCount\<close>):
  none of them is a member of a built-in prototype, so the read is an own-property
  lookup on an object and \<^verbatim>\<open>undefined\<close> on any other non-nullish value. Reading a
  property of \<^verbatim>\<open>undefined\<close> or \<^verbatim>\<open>null\<close> throws a TypeError (the message is V8's).
\<close>

fun get_prop :: "jsval \<Rightarrow> string \<Rightarrow> jserror + jsval" where
  "get_prop JUndefined k =
     Inl (type_error (lit (''Cannot read properties of undefined (reading ''
                            @ [CHR 0x27] @ k @ [CHR 0x27] @ '')'')))"
| "get_prop JNull k =
     Inl (type_error (lit (''Cannot read properties of null (reading ''
                            @ [CHR 0x27] @ k @ [CHR 0x27] @ '')'')))"
| "get_prop (JObj kvs) k = Inr (case map_of kvs k of None \<Rightarrow> JUndefined | Some v \<Rightarrow> v)"
| "get_prop v k = Inr JUndefined"

subsection \<open>String operations\<close>

text \<open>
  The code units that \<^verbatim>\<open>String.prototype.trim\<close> strips and that \<^verbatim>\<open>\s\<close> matches
  (ECMAScript WhiteSpace and LineTerminator): TAB, LF, VT, FF, CR, SPACE, U+00A0, U+1680,
  U+2000..U+200A, U+2028, U+2029, U+202F, U+205F, U+3000, U+FEFF.
\<close>

definition is_ws :: "16 word \<Rightarrow> bool" where
  "is_ws c = (c = 0x09 \<or> c = 0x0A \<or> c = 0x0B \<or> c = 0x0C \<or> c = 0x0D \<or> c = 0x20
     \<or> c = 0xA0 \<or> c = 0x1680 \<or> (0x2000 \<le> c \<and> c \<le> 0x200A) \<or> c = 0x2028 \<or> c = 0x2029
     \<or> c = 0x202F \<or> c = 0x205F \<or> c = 0x3000 \<or> c = 0xFEFF)"

definition non_ws :: "16 word \<Rightarrow> bool" where
  "non_ws c = (is_ws c = False)"

text \<open>\<^verbatim>\<open>s.trim()\<close>\<close>

definition js_trim :: "jsstr \<Rightarrow> jsstr" where
  "js_trim s = rev (dropWhile is_ws (rev (dropWhile is_ws s)))"

text \<open>
  \<^verbatim>\<open>s.split(/\s+/)\<close>. The split loop of the language scans for the next match of
  \<^verbatim>\<open>\s+\<close>, emits the text before it and resumes after the whole run; what is left at
  the end is emitted too, so the result is never empty: the empty string gives one
  empty piece, and a leading or trailing run of whitespace gives an empty first or
  last piece.
\<close>

function js_split_ws :: "jsstr \<Rightarrow> jsstr list" where
  "js_split_ws s =
     (let piece = takeWhile non_ws s; rest = dropWhile non_ws s
      in if rest = [] then [piece] else piece # js_split_ws (dropWhile is_ws rest))"
  by pat_completeness auto
termination
proof (relation "measure length")
  show "wf (measure length)" by simp
next
  fix s :: jsstr and piece rest
  assume r: "rest = dropWhile non_ws s" and ne: "rest \<noteq> []"
  from ne obtain c cs where rc: "rest = c # cs" by (cases rest) auto
  have "dropWhile non_ws s = c # cs" using r rc by simp
  then have "is_ws c"
    by (simp add: dropWhile_eq_Cons_conv non_ws_def)
  then have "length (dropWhile is_ws rest) \<le> length cs"
    using rc by (simp add: length_dropWhile_le)
  also have "\<dots> < length rest" using rc by simp
  also have "\<dots> \<le> length s" using r by (simp add: length_dropWhile_le)
  finally show "(dropWhile is_ws rest, s) \<in> measure length" by simp
qed

text \<open>\<^verbatim>\<open>s.substring(0, n)\<close>\<close>

definition substring0 :: "nat \<Rightarrow> jsstr \<Rightarrow> jsstr" where
  "substring0 n s = take n s"

text \<open>\<^verbatim>\<open>xs.join(sep)\<close> is given with the environment below, since it converts each
  element to a string.\<close>

section \<open>The environment of a request\<close>

text \<open>
  What a handler calls outside the repository is a parameter of the model, one
  outcome per call site of one execution: the language's own \<^verbatim>\<open>ToString\<close> (used by
  template literals and \<^verbatim>\<open>join\<close>; it can throw on an object), \<^verbatim>\<open>JSON.parse\<close>, the
  clock, the file system, the OCR engine and the chat-completion API. Console output
  is not modelled.
\<close>

record message =
  role :: jsstr
  content :: jsval

record completion_request =
  messages :: "message list"
  model :: jsstr
  response_format :: "jsstr option"

type_synonym worker = nat

record env =
  ToString :: "jsval \<Rightarrow> jserror + jsstr"
  JSON_parse :: "jsstr \<Rightarrow> jserror + jsval"
  toISOString_now :: jsstr
  fs_access :: "jsstr \<Rightarrow> jserror + unit"
  createWorker :: "jserror + worker"
  recognize :: "worker \<Rightarrow> jsstr \<Rightarrow> jserror + jsstr"
  completions_create :: "completion_request \<Rightarrow> jserror + jsstr option"

text \<open>
  \<^verbatim>\<open>completions_create\<close> returns \<^verbatim>\<open>completion.choices[0].message.content\<close>, which the
  API declares as a string or \<^verbatim>\<open>null\<close>. \<^verbatim>\<open>recognize\<close> returns \<^verbatim>\<open>data.text\<close>.
  \<^verbatim>\<open>worker.terminate()\<close> resolves without an error in the engine, so it is an event
  only.
\<close>

datatype event =
    WorkerCreated worker
  | WorkerTerminated worker
  | CompletionRequested completion_request

record http_response =
  status :: nat
  body :: jsval

text \<open>\<^verbatim>\<open>JSON.parse(content)\<close>: the argument is converted to a string first, and
  \<^verbatim>\<open>null\<close> becomes the text \<^verbatim>\<open>null\<close>, which parses to \<^verbatim>\<open>null\<close>.\<close>

definition parse_content :: "env \<Rightarrow> jsstr option \<Rightarrow> jserror + jsval" where
  "parse_content env c = (case c of None \<Rightarrow> Inr JNull | Some s \<Rightarrow> JSON_parse env s)"

definition content_value :: "jsstr option \<Rightarrow> jsval" where
  "content_value c = (case c of None \<Rightarrow> JNull | Some s \<Rightarrow> JStr s)"

text \<open>\<^verbatim>\<open>xs.join(sep)\<close>: \<^verbatim>\<open>undefined\<close> and \<^verbatim>\<open>null\<close> elements give the empty string.\<close>

definition element_string :: "env \<Rightarrow> jsval \<Rightarrow> jserror + jsstr" where
  "element_string env v = (if v = JUndefined \<or> v = JNull then Inr [] else ToString env v)"

fun js_join :: "env \<Rightarrow> jsstr \<Rightarrow> jsval list \<Rightarrow> jserror + jsstr" where
  "js_join env sep [] = Inr []"
| "js_join env sep (x # xs) =
     (case element_string env x of
        Inl e \<Rightarrow> Inl e
      | Inr s \<Rightarrow>
          if xs = [] then Inr s
          else (case js_join env sep xs of Inl e \<Rightarrow> Inl e | Inr r \<Rightarrow> Inr (s @ sep @ r)))"

text \<open>\<^verbatim>\<open>v.join(', ')\<close> on a value read from JSON: only an array has a callable
  \<^verbatim>\<open>join\<close>.\<close>

fun call_join :: "env \<Rightarrow> jsval \<Rightarrow> jserror + jsval" where
  "call_join env (JArr xs) =
     (case js_join env (lit '', '') xs of Inl e \<Rightarrow> Inl e | Inr s \<Rightarrow> Inr (JStr s))"
| "call_join env JUndefined =
     Inl (type_error (lit ''Cannot read properties of undefined (reading 'join')''))"
| "call_join env JNull =
     Inl (type_error (lit ''Cannot read properties of null (reading 'join')''))"
| "call_join env v =
     Inl (type_error (lit ''analysisContext.analysis.topics.join is not a function''))"

text \<open>Object literals.\<close>

definition jstr :: "string \<Rightarrow> jsval" where
  "jstr s = JStr (lit s)"

definition jnat :: "nat \<Rightarrow> jsval" where
  "jnat n = JNum (Fin (of_nat n))"

text \<open>\<^verbatim>\<open>{...v}\<close>: the own enumerable properties of \<^verbatim>\<open>v\<close>; an array and a string
  spread their indices, the other primitives nothing.\<close>

function decimal :: "nat \<Rightarrow> string" where
  "decimal n =
     (if n < 10 then [char_of (48 + n)]
      else decimal (n div 10) @ [char_of (48 + n mod 10)])"
  by pat_completeness auto
termination
  by (relation "measure id") auto

fun spread :: "jsval \<Rightarrow> (string \<times> jsval) list" where
  "spread (JObj kvs) = kvs"
| "spread (JArr xs) = zip (map decimal [0..<length xs]) xs"
| "spread (JStr s) = zip (map decimal [0..<length s]) (map (\<lambda>c. JStr [c]) s)"
| "spread v = []"

section \<open>POST /upload\<close>

text \<open>\<^verbatim>\<open>req.file\<close> as the upload middleware leaves it, and the error it passes to the
  callback: none, a \<^verbatim>\<open>MulterError\<close>, or another error (the file filter's).\<close>

record file_info =
  originalname :: jsstr
  path :: jsstr
  size_bytes :: jsnum

datatype upload_error = MulterError jserror | OtherError jserror

record upload_request =
  req_err :: "upload_error option"
  req_file :: "file_info option"

definition multer_error_response :: "env \<Rightarrow> jserror \<Rightarrow> http_response" where
  "multer_error_response env e =
     \<lparr>status = 400,
      body = JObj [(''status'', jstr ''error''),
                   (''message'', jstr ''File upload error''),
                   (''error'', JObj [(''type'', jstr ''MulterError''),
                                     (''details'', JStr (err_message e)),
                                     (''timestamp'', JStr (toISOString_now env))])]\<rparr>"

definition upload_error_response :: "env \<Rightarrow> jserror \<Rightarrow> http_response" where
  "upload_error_response env e =
     \<lparr>status = 400,
      body = JObj [(''status'', jstr ''error''),
                   (''message'', JStr (err_message e)),
                   (''error'', JObj [(''type'', JStr (err_name e)),
                                     (''details'', JStr (err_message e)),
                                     (''timestamp'', JStr (toISOString_now env))])]\<rparr>"

definition no_file_response :: http_response where
  "no_file_response =
     \<lparr>status = 400,
      body = JObj [(''status'', jstr ''error''),
                   (''message'', jstr ''No image file provided'')]\<rparr>"

definition no_text_response :: http_response where
  "no_text_response =
     \<lparr>status = 400,
      body = JObj [(''status'', jstr ''error''),
                   (''message'', jstr ''No text could be extracted from the image'')]\<rparr>"

definition processing_error_response :: "env \<Rightarrow> jserror \<Rightarrow> http_response" where
  "processing_error_response env e =
     \<lparr>status = 500,
      body = JObj [(''status'', jstr ''error''),
                   (''message'', jstr ''Error processing image''),
                   (''error'', JObj [(''type'', JStr (err_name e)),
                                     (''details'', JStr (err_message e)),
                                     (''timestamp'', JStr (toISOString_now env))])]\<rparr>"

definition analysis_system_prompt :: jsstr where
  \<open>analysis_system_prompt = lit ''You are an expert text analyzer. Analyze the provided text and return a JSON response with the following structure:\<newline>            {\<newline>              "summary": "A brief summary of the text",\<newline>              "keyPoints": ["Array of key points extracted"],\<newline>              "sentiment": "Overall sentiment (positive/negative/neutral)",\<newline>              "topics": ["Main topics identified"],\<newline>              "language": "Primary language detected",\<newline>              "confidence": "High/Medium/Low based on text clarity"\<newline>            }''\<close>

definition analysis_request :: "jsstr \<Rightarrow> completion_request" where
  "analysis_request extractedText =
     \<lparr>messages = [\<lparr>role = lit ''system'', content = JStr analysis_system_prompt\<rparr>,
                  \<lparr>role = lit ''user'', content = JStr extractedText\<rparr>],
      model = lit ''gpt-3.5-turbo'',
      response_format = Some (lit ''json_object'')\<rparr>"

definition text_extraction :: "jsstr \<Rightarrow> jsval" where
  "text_extraction extractedText =
     JObj [(''raw'', JStr extractedText),
           (''wordCount'', jnat (length (js_split_ws (js_trim extractedText)))),
           (''characterCount'', jnat (length extractedText))]"

definition upload_data :: "env \<Rightarrow> file_info \<Rightarrow> jsstr \<Rightarrow> jsval \<Rightarrow> jsval" where
  "upload_data env f extractedText analysis =
     JObj [(''file'', JObj [(''name'', JStr (originalname f)),
                            (''path'', JStr (path f)),
                            (''size'', JNum (size_bytes f))]),
           (''textExtraction'', text_extraction extractedText),
           (''analysis'',
              JObj (AList.update ''timestamp'' (JStr (toISOString_now env)) (spread analysis)))]"

definition upload_success_response :: "env \<Rightarrow> file_info \<Rightarrow> jsstr \<Rightarrow> jsval \<Rightarrow> http_response" where
  "upload_success_response env f extractedText analysis =
     \<lparr>status = 200,
      body = JObj [(''status'', jstr ''success''),
                   (''message'', jstr ''Image processed successfully''),
                   (''data'', upload_data env f extractedText analysis)]\<rparr>"

text \<open>
  The \<^verbatim>\<open>try\<close> block. Its result is what it throws (\<open>Inl\<close>) or the response it
  sends (\<open>Inr\<close>), together with the value of \<^verbatim>\<open>worker\<close> when the block is left and
  the events so far. The empty-text branch terminates the worker itself before it
  returns.
\<close>

definition upload_try ::
  "env \<Rightarrow> file_info \<Rightarrow> (jserror + http_response) \<times> worker option \<times> event list" where
  "upload_try env f =
     (case fs_access env (path f) of
        Inl e \<Rightarrow> (Inl e, None, [])
      | Inr ok \<Rightarrow>
     (case createWorker env of
        Inl e \<Rightarrow> (Inl e, None, [])
      | Inr w \<Rightarrow>
     (case recognize env w (path f) of
        Inl e \<Rightarrow> (Inl e, Some w, [WorkerCreated w])
      | Inr text \<Rightarrow>
          if js_trim text = [] then
            (Inr no_text_response, Some w, [WorkerCreated w, WorkerTerminated w])
          else
            (let request = analysis_request text;
                 ev = [WorkerCreated w, CompletionRequested request]
             in case completions_create env request of
                  Inl e \<Rightarrow> (Inl e, Some w, ev)
                | Inr c \<Rightarrow>
                    (case parse_content env c of
                       Inl e \<Rightarrow> (Inl e, Some w, ev)
                     | Inr analysis \<Rightarrow>
                         (Inr (upload_success_response env f text analysis), Some w, ev))))))"

text \<open>The handler: the checks before the \<^verbatim>\<open>try\<close>, then \<^verbatim>\<open>try\<close>, \<^verbatim>\<open>catch\<close> (any
  thrown error becomes the 500 response) and \<^verbatim>\<open>finally\<close> (terminate the worker if
  the variable holds one).\<close>

definition upload_handler :: "env \<Rightarrow> upload_request \<Rightarrow> http_response \<times> event list" where
  "upload_handler env req =
     (case req_err req of
        Some (MulterError e) \<Rightarrow> (multer_error_response env e, [])
      | Some (OtherError e) \<Rightarrow> (upload_error_response env e, [])
      | None \<Rightarrow>
     (case req_file req of
        None \<Rightarrow> (no_file_response, [])
      | Some f \<Rightarrow>
          (case upload_try env f of
             (result, worker, ev) \<Rightarrow>
               (case result of Inl e \<Rightarrow> processing_error_response env e | Inr r \<Rightarrow> r,
                case worker of None \<Rightarrow> ev | Some w \<Rightarrow> ev @ [WorkerTerminated w]))))"

section \<open>POST /chat and POST /ask\<close>

text \<open>Sequencing of steps that can throw.\<close>

definition bind_e :: "jserror + 'a \<Rightarrow> ('a \<Rightarrow> jserror + 'b) \<Rightarrow> jserror + 'b" where
  "bind_e m f = (case m of Inl e \<Rightarrow> Inl e | Inr x \<Rightarrow> f x)"

text \<open>\<^verbatim>\<open>v.k1.k2\<close>\<close>

definition read2 :: "jsval \<Rightarrow> string \<Rightarrow> string \<Rightarrow> jserror + jsval" where
  "read2 v k1 k2 = bind_e (get_prop v k1) (\<lambda>x. get_prop x k2)"

text \<open>
  A template literal: the literal chunks and, between them, the substitutions, each
  evaluated and converted with \<^verbatim>\<open>ToString\<close> from left to right; the first one that
  throws ends the evaluation.
\<close>

fun template :: "jsstr list \<Rightarrow> (jserror + jsstr) list \<Rightarrow> jserror + jsstr" where
  "template (h # hs) (m # ms) =
     (case m of
        Inl e \<Rightarrow> Inl e
      | Inr s \<Rightarrow> (case template hs ms of Inl e \<Rightarrow> Inl e | Inr r \<Rightarrow> Inr (h @ s @ r)))"
| "template hs ms = Inr (concat hs)"

definition interp :: "env \<Rightarrow> jserror + jsval \<Rightarrow> jserror + jsstr" where
  "interp env m = bind_e m (ToString env)"

text \<open>\<^verbatim>\<open>const { question, analysisContext } = req.body\<close>: destructuring
  \<^verbatim>\<open>undefined\<close> or \<^verbatim>\<open>null\<close> throws; an object gives its own properties; any other
  value has neither property.\<close>

fun request_fields :: "jsval \<Rightarrow> jserror + jsval \<times> jsval" where
  "request_fields JUndefined =
     Inl (type_error
       (lit ''Cannot destructure property 'question' of 'req.body' as it is undefined.''))"
| "request_fields JNull =
     Inl (type_error
       (lit ''Cannot destructure property 'question' of 'req.body' as it is null.''))"
| "request_fields v =
     bind_e (get_prop v ''question'') (\<lambda>question.
     bind_e (get_prop v ''analysisContext'') (\<lambda>analysisContext.
       Inr (question, analysisContext)))"

definition missing_fields_response :: http_response where
  "missing_fields_response =
     \<lparr>status = 400,
      body = JObj [(''status'', jstr ''error''),
                   (''message'', jstr ''Question and analysis context are required'')]\<rparr>"

subsection \<open>/chat\<close>

definition chat_system_prompt :: "env \<Rightarrow> jsval \<Rightarrow> jserror + jsstr" where
  \<open>chat_system_prompt env analysisContext =
     template
       [lit ''You are a helpful assistant analyzing text. You have access to the following analysis context:\<newline>          - Extracted Text: '',
       lit ''\<newline>          - Summary: '',
       lit ''\<newline>          - Sentiment: '',
       lit ''\<newline>          - Topics: '',
       lit ''\<newline>          - Language: '',
       lit ''\<newline>          \<newline>          Provide concise, specific answers based on this analysis.'']
       [interp env (read2 analysisContext ''textExtraction'' ''raw''),
        interp env (read2 analysisContext ''analysis'' ''summary''),
        interp env (read2 analysisContext ''analysis'' ''sentiment''),
        interp env (bind_e (read2 analysisContext ''analysis'' ''topics'') (call_join env)),
        interp env (read2 analysisContext ''analysis'' ''language'')]\<close>

definition chat_request :: "jsstr \<Rightarrow> jsval \<Rightarrow> completion_request" where
  "chat_request prompt question =
     \<lparr>messages = [\<lparr>role = lit ''system'', content = JStr prompt\<rparr>,
                  \<lparr>role = lit ''user'', content = question\<rparr>],
      model = lit ''gpt-3.5-turbo'',
      response_format = None\<rparr>"

definition chat_success_response :: "jsstr option \<Rightarrow> http_response" where
  "chat_success_response c =
     \<lparr>status = 200,
      body = JObj [(''status'', jstr ''success''), (''response'', content_value c)]\<rparr>"

definition chat_error_response :: "jserror \<Rightarrow> http_response" where
  "chat_error_response e =
     \<lparr>status = 500,
      body = JObj [(''status'', jstr ''error''),
                   (''message'', jstr ''Error processing chat request''),
                   (''error'', JStr (err_message e))]\<rparr>"

definition chat_try :: "env \<Rightarrow> jsval \<Rightarrow> (jserror + http_response) \<times> event list" where
  "chat_try env req_body =
     (case request_fields req_body of
        Inl e \<Rightarrow> (Inl e, [])
      | Inr (question, analysisContext) \<Rightarrow>
          if falsy question \<or> falsy analysisContext then (Inr missing_fields_response, [])
          else
            (case chat_system_prompt env analysisContext of
               Inl e \<Rightarrow> (Inl e, [])
             | Inr prompt \<Rightarrow>
                 (let request = chat_request prompt question
                  in case completions_create env request of
                       Inl e \<Rightarrow> (Inl e, [CompletionRequested request])
                     | Inr c \<Rightarrow>
                         (Inr (chat_success_response c), [CompletionRequested request]))))"

definition chat_handler :: "env \<Rightarrow> jsval \<Rightarrow> http_response \<times> event list" where
  "chat_handler env req_body =
     (case chat_try env req_body of
        (result, ev) \<Rightarrow>
          (case result of Inl e \<Rightarrow> chat_error_response e | Inr r \<Rightarrow> r, ev))"

subsection \<open>/ask\<close>

definition invalid_context_response :: http_response where
  "invalid_context_response =
     \<lparr>status = 400,
      body = JObj [(''status'', jstr ''error''),
                   (''message'', jstr ''Invalid analysis context structure'')]\<rparr>"

text \<open>\<^verbatim>\<open>${e || 'Not available'}\<close>\<close>

definition or_default :: "jserror + jsval \<Rightarrow> jserror + jsval" where
  "or_default m = bind_e m (\<lambda>v. Inr (js_or v (jstr ''Not available'')))"

text \<open>\<^verbatim>\<open>topics && topics.join(', ')\<close>\<close>

definition topics_joined :: "env \<Rightarrow> jsval \<Rightarrow> jserror + jsval" where
  "topics_joined env analysisContext =
     bind_e (read2 analysisContext ''analysis'' ''topics'') (\<lambda>topics.
       if falsy topics then Inr topics else call_join env topics)"

definition ask_system_prompt :: "env \<Rightarrow> jsval \<Rightarrow> jserror + jsstr" where
  \<open>ask_system_prompt env analysisContext =
     template
       [lit ''You are an expert text analyzer providing detailed insights. \<newline>    Context of the analyzed text:\<newline>    - Full Text: '',
       lit ''\<newline>    - Summary: '',
       lit ''\<newline>    - Sentiment: '',
       lit ''\<newline>    - Topics: '',
       lit ''\<newline>    - Language: '',
       lit ''\<newline>    - Word Count: '',
       lit ''\<newline>    - Character Count: '',
       lit ''\<newline>\<newline>    Provide a detailed response in JSON format with the following structure:\<newline>    {\<newline>      "answer": "Your main answer to the question",\<newline>      "evidence": ["Relevant quotes or examples from the text"],\<newline>      "confidence": "High/Medium/Low based on available information",\<newline>      "relatedTopics": ["Related topics from the analysis"],\<newline>      "suggestions": ["Optional suggestions for follow-up questions"]\<newline>    }\<newline>\<newline>    You must respond with valid JSON that matches this structure.\<newline>    Base your analysis on the provided context and be specific in your responses.'']
       [interp env (or_default (read2 analysisContext ''textExtraction'' ''raw'')),
        interp env (or_default (read2 analysisContext ''analysis'' ''summary'')),
        interp env (or_default (read2 analysisContext ''analysis'' ''sentiment'')),
        interp env (or_default (topics_joined env analysisContext)),
        interp env (or_default (read2 analysisContext ''analysis'' ''language'')),
        interp env (or_default (read2 analysisContext ''textExtraction'' ''wordCount'')),
        interp env (or_default (read2 analysisContext ''textExtraction'' ''characterCount''))]\<close>

definition ask_request :: "jsstr \<Rightarrow> jsval \<Rightarrow> completion_request" where
  "ask_request prompt question =
     \<lparr>messages = [\<lparr>role = lit ''system'', content = JStr prompt\<rparr>,
                  \<lparr>role = lit ''user'', content = question\<rparr>],
      model = lit ''gpt-3.5-turbo'',
      response_format = Some (lit ''json_object'')\<rparr>"

definition fallback_answer :: "jsstr \<Rightarrow> jsstr" where
  "fallback_answer raw_content =
     lit ''I couldn't format the answer properly, but here's the raw response: ''
       @ substring0 500 raw_content @ lit ''...''"

definition fallback_analysis :: "jsstr \<Rightarrow> jsval" where
  "fallback_analysis raw_content =
     JObj [(''answer'', JStr (fallback_answer raw_content)),
           (''evidence'', JArr []),
           (''confidence'', jstr ''Low''),
           (''relatedTopics'', JArr []),
           (''suggestions'', JArr [jstr ''Try asking a more specific question''])]"

definition ask_success_response :: "env \<Rightarrow> jsval \<Rightarrow> jsval \<Rightarrow> http_response" where
  "ask_success_response env question analysis =
     \<lparr>status = 200,
      body = JObj [(''status'', jstr ''success''),
                   (''timestamp'', JStr (toISOString_now env)),
                   (''question'', question),
                   (''analysis'', analysis)]\<rparr>"

definition ask_error_response :: "env \<Rightarrow> jserror \<Rightarrow> http_response" where
  "ask_error_response env e =
     \<lparr>status = 500,
      body = JObj [(''status'', jstr ''error''),
                   (''message'', jstr ''Error processing question''),
                   (''error'', JObj [(''type'', JStr (err_name e)),
                                     (''message'', JStr (err_message e)),
                                     (''timestamp'', JStr (toISOString_now env))])]\<rparr>"

text \<open>
  The inner \<^verbatim>\<open>try\<close> around \<^verbatim>\<open>JSON.parse\<close>: its \<^verbatim>\<open>catch\<close> sends the fallback, built
  from \<^verbatim>\<open>content.substring(0, 500)\<close> (which would itself throw on a \<^verbatim>\<open>null\<close> content).
\<close>

definition ask_parse :: "env \<Rightarrow> jsval \<Rightarrow> jsstr option \<Rightarrow> jserror + http_response" where
  "ask_parse env question c =
     (case parse_content env c of
        Inr analysis \<Rightarrow> Inr (ask_success_response env question analysis)
      | Inl parseError \<Rightarrow>
          (case c of
             Some raw_content \<Rightarrow>
               Inr (ask_success_response env question (fallback_analysis raw_content))
           | None \<Rightarrow>
               Inl (type_error (lit ''Cannot read properties of null (reading 'substring')''))))"

definition ask_try :: "env \<Rightarrow> jsval \<Rightarrow> (jserror + http_response) \<times> event list" where
  "ask_try env req_body =
     (case request_fields req_body of
        Inl e \<Rightarrow> (Inl e, [])
      | Inr (question, analysisContext) \<Rightarrow>
          if falsy question \<or> falsy analysisContext then (Inr missing_fields_response, [])
          else
            (case get_prop analysisContext ''textExtraction'' of
               Inl e \<Rightarrow> (Inl e, [])
             | Inr textExtraction \<Rightarrow>
            (case get_prop analysisContext ''analysis'' of
               Inl e \<Rightarrow> (Inl e, [])
             | Inr analysis \<Rightarrow>
                 if falsy textExtraction \<or> falsy analysis then (Inr invalid_context_response, [])
                 else
                   (case ask_system_prompt env analysisContext of
                      Inl e \<Rightarrow> (Inl e, [])
                    | Inr prompt \<Rightarrow>
                        (let request = ask_request prompt question
                         in case completions_create env request of
                              Inl e \<Rightarrow> (Inl e, [CompletionRequested request])
                            | Inr c \<Rightarrow>
                                (ask_parse env question c, [CompletionRequested request]))))))"

definition ask_handler :: "env \<Rightarrow> jsval \<Rightarrow> http_response \<times> event list" where
  "ask_handler env req_body =
     (case ask_try env req_body of
        (result, ev) \<Rightarrow>
          (case result of Inl e \<Rightarrow> ask_error_response env e | Inr r \<Rightarrow> r, ev))"

section \<open>Notions of the specification\<close>

text \<open>
  The whitespace-delimited tokens of a text, as the specification counts words: the
  maximal runs of non-whitespace code units, whatever whitespace surrounds them.
\<close>

function ws_tokens :: "jsstr \<Rightarrow> jsstr list" where
  "ws_tokens s =
     (let t = dropWhile is_ws s
      in if t = [] then [] else takeWhile non_ws t # ws_tokens (dropWhile non_ws t))"
  by pat_completeness auto
termination
proof (relation "measure length")
  show "wf (measure length)" by simp
next
  fix s t :: jsstr
  assume t: "t = dropWhile is_ws s" and ne: "t \<noteq> []"
  from ne obtain c cs where tc: "t = c # cs" by (cases t) auto
  have "dropWhile is_ws s = c # cs" using t tc by simp
  then have "non_ws c"
    by (simp add: dropWhile_eq_Cons_conv non_ws_def)
  then have "length (dropWhile non_ws t) \<le> length cs"
    using tc by (simp add: length_dropWhile_le)
  also have "\<dots> < length t" using tc by simp
  also have "\<dots> \<le> length s" using t by (simp add: length_dropWhile_le)
  finally show "(dropWhile non_ws t, s) \<in> measure length" by simp
qed

text \<open>Reading a field of a response body or of a context: the own property of an
  object, \<^verbatim>\<open>undefined\<close> where there is none.\<close>

definition field :: "string \<Rightarrow> jsval \<Rightarrow> jsval" where
  "field k v = (case get_prop v k of Inl e \<Rightarrow> JUndefined | Inr x \<Rightarrow> x)"

text \<open>\<^verbatim>\<open>v.k1.k2...\<close> read in the same way along a path.\<close>

fun at_path :: "string list \<Rightarrow> jsval \<Rightarrow> jsval" where
  "at_path [] v = v"
| "at_path (k # ks) v = at_path ks (field k v)"

definition is_terminated :: "event \<Rightarrow> bool" where
  "is_terminated ev = (case ev of WorkerTerminated w \<Rightarrow> True | _ \<Rightarrow> False)"

definition is_completion :: "event \<Rightarrow> bool" where
  "is_completion ev = (case ev of CompletionRequested r \<Rightarrow> True | _ \<Rightarrow> False)"

text \<open>A JSON object, as opposed to a primitive, an array, \<^verbatim>\<open>null\<close> or \<^verbatim>\<open>undefined\<close>.\<close>

fun is_json_object :: "jsval \<Rightarrow> bool" where
  "is_json_object (JObj kvs) = True"
| "is_json_object v = False"

section \<open>Sample executions\<close>

text \<open>
  A concrete environment for running the handlers: the file is readable, the engine
  starts worker 1 and recognises the given text, the completion API answers with the
  given content, \<^verbatim>\<open>JSON.parse\<close> accepts the text \<^verbatim>\<open>{}\<close> only, and \<^verbatim>\<open>ToString\<close> is the
  identity on strings.
\<close>

definition sample_env :: "jsstr \<Rightarrow> jsstr option \<Rightarrow> env" where
  "sample_env ocr_text reply =
     \<lparr>ToString = (\<lambda>v. case v of JStr s \<Rightarrow> Inr s | _ \<Rightarrow> Inr (lit ''[object Object]'')),
      JSON_parse = (\<lambda>s. if s = lit ''{}'' then Inr (JObj [])
                         else Inl (JsError (lit ''SyntaxError'') (lit ''Unexpected token''))),
      toISOString_now = lit ''2024-05-01T12:00:00.000Z'',
      fs_access = (\<lambda>p. Inr ()),
      createWorker = Inr 1,
      recognize = (\<lambda>w p. Inr ocr_text),
      completions_create = (\<lambda>r. Inr reply)\<rparr>"

definition sample_file :: file_info where
  "sample_file =
     \<lparr>originalname = lit ''note.png'',
      path = lit ''uploads/1714564800000-note.png'',
      size_bytes = Fin 2048\<rparr>"

definition sample_upload :: upload_request where
  "sample_upload = \<lparr>req_err = None, req_file = Some sample_file\<rparr>"

definition sample_context :: jsval where
  "sample_context =
     JObj [(''textExtraction'', JObj [(''raw'', jstr ''hi there''),
                                     (''wordCount'', jnat 2),
                                     (''characterCount'', jnat 8)]),
           (''analysis'', JObj [(''summary'', jstr ''a greeting''),
                               (''sentiment'', jstr ''neutral''),
                               (''topics'', JArr [jstr ''greeting'']),
                               (''language'', jstr ''English'')])]"

definition sample_question :: jsval where
  "sample_question = jstr ''What is this about?''"

definition sample_body :: jsval where
  "sample_body = JObj [(''question'', sample_question), (''analysisContext'', sample_context)]"

text \<open>A context with a text-extraction sub-object and no analysis, and request bodies
  around it and around an empty context.\<close>

definition context_without_analysis :: jsval where
  "context_without_analysis = JObj [(''textExtraction'', JObj [(''raw'', jstr ''hi there'')])]"

definition body_without_analysis :: jsval where
  "body_without_analysis =
     JObj [(''question'', sample_question), (''analysisContext'', context_without_analysis)]"

definition body_without_question :: jsval where
  "body_without_question = JObj [(''analysisContext'', JObj [])]"

definition body_with_empty_context :: jsval where
  "body_with_empty_context =
     JObj [(''question'', sample_question), (''analysisContext'', JObj [])]"

text \<open>A context whose \<^verbatim>\<open>textExtraction\<close> is present but is a string, not an object,
  with a complete analysis.\<close>

definition context_text_not_object :: jsval where
  "context_text_not_object =
     JObj [(''textExtraction'', jstr ''abc''),
           (''analysis'', JObj [(''summary'', jstr ''a greeting''),
                               (''sentiment'', jstr ''neutral''),
                               (''topics'', JArr [jstr ''greeting'']),
                               (''language'', jstr ''English'')])]"

definition body_text_not_object :: jsval where
  "body_text_not_object =
     JObj [(''question'', sample_question), (''analysisContext'', context_text_not_object)]"

text \<open>The sample replies: free prose, which the sample parser rejects.\<close>

definition prose_reply :: jsstr where
  "prose_reply = lit ''Sure! Here you go.''"

definition prose_env :: env where
  "prose_env = sample_env (lit ''hi  there'') (Some prose_reply)"

definition blank_env :: env where
  "blank_env = sample_env (lit ''   '') None"

definition json_env :: env where
  "json_env = sample_env (lit ''hi  there'') (Some (lit ''{}''))"

section \<open>Properties of the string operations\<close>

text \<open>The recursive equations are unfolded by hand, one step at a time.\<close>

lemma ws_tokens_unfold:
  "ws_tokens s = (let t = dropWhile is_ws s
      in if t = [] then [] else takeWhile non_ws t # ws_tokens (dropWhile non_ws t))"
  by (rule ws_tokens.simps)

lemma split_unfold:
  "js_split_ws s =
     (let piece = takeWhile non_ws s; rest = dropWhile non_ws s
      in if rest = [] then [piece] else piece # js_split_ws (dropWhile is_ws rest))"
  by (rule js_split_ws.simps)

declare ws_tokens.simps [simp del] js_split_ws.simps [simp del]

lemma dropWhile_idem: "dropWhile P (dropWhile P xs) = dropWhile P xs"
  by (induction xs) auto

lemma ws_tokens_dropWhile: "ws_tokens (dropWhile is_ws s) = ws_tokens s"
  by (subst ws_tokens_unfold, subst (2) ws_tokens_unfold) (simp add: dropWhile_idem)

lemma ws_tokens_all_ws: "\<forall>c\<in>set w. is_ws c \<Longrightarrow> ws_tokens w = []"
  by (subst ws_tokens_unfold) simp

lemma ws_tokens_append_ws:
  "\<forall>c\<in>set w. is_ws c \<Longrightarrow> ws_tokens (s @ w) = ws_tokens s"
proof (induction s rule: ws_tokens.induct)
  case (1 s)
  define t where "t = dropWhile is_ws s"
  show ?case
  proof (cases "t = []")
    case True
    then have "\<forall>c\<in>set s. is_ws c" by (simp add: t_def)
    then have "\<forall>c\<in>set (s @ w). is_ws c" using 1(2) by auto
    then have "ws_tokens (s @ w) = []" by (rule ws_tokens_all_ws)
    moreover have "ws_tokens s = []" using \<open>\<forall>c\<in>set s. is_ws c\<close> by (rule ws_tokens_all_ws)
    ultimately show ?thesis by simp
  next
    case False
    then obtain x where x: "x \<in> set s" "\<not> is_ws x" by (auto simp: t_def)
    then have dw: "dropWhile is_ws (s @ w) = t @ w"
      by (simp add: t_def)
    from False obtain c cs where tc: "t = c # cs" by (cases t) auto
    then have "dropWhile is_ws s = c # cs" by (simp add: t_def)
    then have nc: "non_ws c" by (simp add: dropWhile_eq_Cons_conv non_ws_def)
    have nw: "\<forall>c\<in>set w. \<not> non_ws c" using 1(2) by (simp add: non_ws_def)
    have tk: "takeWhile non_ws (t @ w) = takeWhile non_ws t"
      using nw by (induction t) (auto simp: takeWhile_eq_Nil_iff intro: hd_in_set)
    have dk: "dropWhile non_ws (t @ w) = dropWhile non_ws t @ w"
      using nw by (induction t) (auto simp: dropWhile_eq_self_iff intro: hd_in_set)
    have ih: "ws_tokens (dropWhile non_ws t @ w) = ws_tokens (dropWhile non_ws t)"
      using 1(1)[OF t_def False 1(2)] .
    have "ws_tokens (s @ w) = takeWhile non_ws (t @ w) # ws_tokens (dropWhile non_ws (t @ w))"
      by (subst ws_tokens_unfold) (simp add: dw tc)
    also have "\<dots> = takeWhile non_ws t # ws_tokens (dropWhile non_ws t)"
      by (simp add: tk dk ih)
    also have "\<dots> = ws_tokens s"
      by (subst (2) ws_tokens_unfold) (simp add: t_def[symmetric] False)
    finally show ?thesis .
  qed
qed

lemma split_eq_tokens:
  "s \<noteq> [] \<Longrightarrow> non_ws (hd s) \<Longrightarrow> non_ws (last s) \<Longrightarrow> js_split_ws s = ws_tokens s"
proof (induction s rule: js_split_ws.induct)
  case (1 s)
  define rest where "rest = dropWhile non_ws s"
  have ds: "dropWhile is_ws s = s"
    using 1(2,3) by (cases s) (auto simp: non_ws_def)
  show ?case
  proof (cases "rest = []")
    case True
    have "ws_tokens [] = []" by (subst ws_tokens_unfold) simp
    then have "ws_tokens s = [takeWhile non_ws s]"
      using True 1(2) by (subst ws_tokens_unfold) (simp add: ds rest_def[symmetric])
    moreover have "js_split_ws s = [takeWhile non_ws s]"
      using True by (subst split_unfold) (simp add: rest_def[symmetric])
    ultimately show ?thesis by simp
  next
    case False
    define r where "r = dropWhile is_ws rest"
    have ls: "non_ws (last s)" by (rule 1(4))
    have last_in: "last s \<in> set s" using 1(2) by simp
    have srest: "s = takeWhile non_ws s @ rest" by (simp add: rest_def)
    have lr: "last rest = last s" using False srest by (metis last_appendR)
    have "last rest \<in> set rest" using False by simp
    then have ex: "last rest \<in> set rest" "\<not> is_ws (last rest)"
      using ls lr by (auto simp: non_ws_def)
    then have rne: "r \<noteq> []" by (auto simp: r_def)
    have lastr: "last r = last rest" unfolding r_def
      using ex by (rule dropWhile_last[of "last rest" rest is_ws])
    from rne obtain c cs where rc: "r = c # cs" by (cases r) auto
    then have "dropWhile is_ws rest = c # cs" by (simp add: r_def)
    then have "\<not> is_ws c" by (simp add: dropWhile_eq_Cons_conv)
    then have hdr: "non_ws (hd r)" by (simp add: rc non_ws_def)
    have ih: "js_split_ws r = ws_tokens r"
      using 1(1)[OF refl rest_def False] rne hdr lastr lr ls by (simp add: r_def)
    have "js_split_ws s = takeWhile non_ws s # js_split_ws r"
      using False by (subst split_unfold) (simp add: rest_def[symmetric] r_def)
    moreover have "ws_tokens s = takeWhile non_ws s # ws_tokens rest"
      using 1(2) by (subst ws_tokens_unfold) (simp add: ds rest_def[symmetric])
    moreover have "ws_tokens rest = ws_tokens r"
      by (simp add: r_def ws_tokens_dropWhile)
    ultimately show ?thesis using ih by simp
  qed
qed

lemma trim_decomp:
  "\<exists>w. (\<forall>c\<in>set w. is_ws c) \<and> dropWhile is_ws s = js_trim s @ w"
proof -
  define t where "t = dropWhile is_ws s"
  have "rev t = takeWhile is_ws (rev t) @ dropWhile is_ws (rev t)" by simp
  then have "t = rev (dropWhile is_ws (rev t)) @ rev (takeWhile is_ws (rev t))"
    by (metis rev_append rev_rev_ident)
  moreover have "\<forall>c\<in>set (rev (takeWhile is_ws (rev t))). is_ws c"
    by (auto dest: set_takeWhileD)
  ultimately show ?thesis unfolding js_trim_def t_def[symmetric] by blast
qed

lemma trim_ends:
  assumes "js_trim s \<noteq> []"
  shows "non_ws (hd (js_trim s))" and "non_ws (last (js_trim s))"
proof -
  define t where "t = dropWhile is_ws s"
  define u where "u = dropWhile is_ws (rev t)"
  have tr: "js_trim s = rev u" by (simp add: js_trim_def t_def u_def)
  then have une: "u \<noteq> []" using assms by simp
  then obtain c cs where uc: "u = c # cs" by (cases u) auto
  then have "dropWhile is_ws (rev t) = c # cs" by (simp add: u_def)
  then have "\<not> is_ws c" by (simp add: dropWhile_eq_Cons_conv)
  then show "non_ws (last (js_trim s))" by (simp add: tr uc non_ws_def)
  have tne: "t \<noteq> []" using une by (auto simp: u_def)
  then obtain d ds where td: "t = d # ds" by (cases t) auto
  then have "dropWhile is_ws s = d # ds" by (simp add: t_def)
  then have nd: "\<not> is_ws d" by (simp add: dropWhile_eq_Cons_conv)
  obtain w where w: "t = js_trim s @ w" using trim_decomp[of s] by (auto simp: t_def)
  then have "hd (js_trim s) = d" using assms td by (cases "js_trim s") auto
  then show "non_ws (hd (js_trim s))" using nd by (simp add: non_ws_def)
qed

lemma split_trim_eq_tokens:
  assumes "js_trim raw \<noteq> []"
  shows "js_split_ws (js_trim raw) = ws_tokens raw"
proof -
  obtain w where w: "\<forall>c\<in>set w. is_ws c" "dropWhile is_ws raw = js_trim raw @ w"
    using trim_decomp[of raw] by blast
  have "js_split_ws (js_trim raw) = ws_tokens (js_trim raw)"
    using assms trim_ends[OF assms] by (rule split_eq_tokens)
  also have "\<dots> = ws_tokens (js_trim raw @ w)" using w(1) by (simp add: ws_tokens_append_ws)
  also have "\<dots> = ws_tokens raw" using w(2) ws_tokens_dropWhile[of raw] by simp
  finally show ?thesis .
qed

lemma split_nonempty: "js_split_ws s \<noteq> []"
  by (subst split_unfold) (simp add: Let_def)

lemma trim_nonempty_imp: "js_trim s \<noteq> [] \<Longrightarrow> s \<noteq> []"
  by (auto simp: js_trim_def)

section \<open>The paths of the handlers\<close>

lemma field_obj:
  "field k (JObj kvs) = (case map_of kvs k of None \<Rightarrow> JUndefined | Some v \<Rightarrow> v)"
  by (simp add: field_def)

lemma upload_success_shape:
  assumes "status (fst (upload_handler env req)) = 200"
  shows "\<exists>f raw analysis. js_trim raw \<noteq> [] \<and>
           fst (upload_handler env req) = upload_success_response env f raw analysis"
  using assms
  unfolding upload_handler_def upload_try_def
  by (auto simp: Let_def multer_error_response_def upload_error_response_def
        no_file_response_def no_text_response_def processing_error_response_def
      split: option.splits upload_error.splits sum.splits if_splits)

lemma success_text_extraction:
  "at_path [''data'', ''textExtraction''] (body (upload_success_response env f raw analysis))
     = text_extraction raw"
  by (simp add: upload_success_response_def upload_data_def field_obj)

lemma sample_upload_succeeds:
  "status (fst (upload_handler json_env sample_upload)) = 200"
  by (simp add: upload_handler_def upload_try_def json_env_def sample_env_def
        sample_upload_def sample_file_def lit_def js_trim_def is_ws_def parse_content_def
        upload_success_response_def)

lemma get_prop_truthy: "falsy v = False \<Longrightarrow> get_prop v k = Inr (field k v)"
  by (cases v) (auto simp: field_def)

lemma request_fields_Inr:
  "request_fields b = Inr (q, ctx) \<Longrightarrow> q = field ''question'' b \<and> ctx = field ''analysisContext'' b"
  by (cases b) (auto simp: bind_e_def field_def split: sum.splits)

lemma request_fields_obj:
  "request_fields (JObj kvs) = Inr (field ''question'' (JObj kvs), field ''analysisContext'' (JObj kvs))"
  by (simp add: bind_e_def field_def)

lemma ask_checked:
  assumes "request_fields b = Inr (q, ctx)" "\<not> falsy q" "\<not> falsy ctx"
    "\<not> falsy (field ''textExtraction'' ctx)" "\<not> falsy (field ''analysis'' ctx)"
  shows "ask_handler env b =
    (case ask_system_prompt env ctx of
       Inl e \<Rightarrow> (ask_error_response env e, [])
     | Inr prompt \<Rightarrow>
        (case completions_create env (ask_request prompt q) of
           Inl e \<Rightarrow> (ask_error_response env e, [CompletionRequested (ask_request prompt q)])
         | Inr c \<Rightarrow>
            (case ask_parse env q c of Inl e \<Rightarrow> ask_error_response env e | Inr r \<Rightarrow> r,
             [CompletionRequested (ask_request prompt q)])))"
  using assms
  by (simp add: ask_handler_def ask_try_def get_prop_truthy Let_def split: sum.splits)

lemma ask_unchecked:
  assumes "request_fields b = Inr (q, ctx)"
  shows "falsy q \<or> falsy ctx \<Longrightarrow> ask_handler env b = (missing_fields_response, [])"
    and "\<not> falsy q \<Longrightarrow> \<not> falsy ctx \<Longrightarrow>
          falsy (field ''textExtraction'' ctx) \<or> falsy (field ''analysis'' ctx) \<Longrightarrow>
          ask_handler env b = (invalid_context_response, [])"
  using assms
  by (auto simp add: ask_handler_def ask_try_def get_prop_truthy Let_def split: sum.splits)

lemma ask_parse_status:
  "ask_parse env q c = Inr r \<Longrightarrow> status r = 200"
  by (auto simp: ask_parse_def ask_success_response_def split: sum.splits option.splits)

lemma ask_checked_status:
  assumes "request_fields b = Inr (q, ctx)" "\<not> falsy q" "\<not> falsy ctx"
    "\<not> falsy (field ''textExtraction'' ctx)" "\<not> falsy (field ''analysis'' ctx)"
  shows "status (fst (ask_handler env b)) = 200 \<or> status (fst (ask_handler env b)) = 500"
  unfolding ask_checked[OF assms]
  by (auto simp: ask_error_response_def dest: ask_parse_status split: sum.splits)

lemma ask_events:
  assumes "CompletionRequested r \<in> set (snd (ask_handler env b))"
  shows "fst (ask_handler env b) =
           (case completions_create env r of
              Inl e \<Rightarrow> ask_error_response env e
            | Inr c \<Rightarrow>
                (case ask_parse env (field ''question'' b) c of
                   Inl e \<Rightarrow> ask_error_response env e
                 | Inr resp \<Rightarrow> resp))"
proof (cases "request_fields b")
  case (Inl e)
  then show ?thesis using assms by (simp add: ask_handler_def ask_try_def)
next
  case (Inr p)
  obtain q ctx where p: "p = (q, ctx)" by (cases p)
  have rf: "request_fields b = Inr (q, ctx)" using Inr p by simp
  have q: "q = field ''question'' b" using request_fields_Inr[OF rf] by simp
  show ?thesis
  proof (cases "falsy q \<or> falsy ctx")
    case True
    then show ?thesis using assms ask_unchecked(1)[OF rf] by simp
  next
    case ok: False
    show ?thesis
    proof (cases "falsy (field ''textExtraction'' ctx) \<or> falsy (field ''analysis'' ctx)")
      case True
      then show ?thesis using assms ask_unchecked(2)[OF rf] ok by simp
    next
      case False
      have eq: "ask_handler env b =
        (case ask_system_prompt env ctx of
           Inl e \<Rightarrow> (ask_error_response env e, [])
         | Inr prompt \<Rightarrow>
            (case completions_create env (ask_request prompt q) of
               Inl e \<Rightarrow> (ask_error_response env e, [CompletionRequested (ask_request prompt q)])
             | Inr c \<Rightarrow>
                (case ask_parse env q c of Inl e \<Rightarrow> ask_error_response env e | Inr r \<Rightarrow> r,
                 [CompletionRequested (ask_request prompt q)])))"
        using ask_checked[OF rf] ok False by simp
      show ?thesis using assms unfolding eq q
        by (auto split: sum.splits)
    qed
  qed
qed

lemma upload_events:
  assumes "CompletionRequested r \<in> set (snd (upload_handler env req))"
    and "completions_create env r = Inr c"
    and "parse_content env c = Inl e"
  shows "fst (upload_handler env req) = processing_error_response env e"
  using assms
  unfolding upload_handler_def upload_try_def
  by (auto simp: Let_def split: option.splits upload_error.splits sum.splits if_splits)

lemma upload_no_text_run:
  assumes "req_err req = None" "req_file req = Some f"
    and "fs_access env (path f) = Inr u"
    and "createWorker env = Inr w"
    and "recognize env w (path f) = Inr raw"
    and "js_trim raw = []"
  shows "upload_handler env req =
           (no_text_response, [WorkerCreated w, WorkerTerminated w, WorkerTerminated w])"
  using assms by (simp add: upload_handler_def upload_try_def)

lemma upload_terminates_once_otherwise:
  assumes "WorkerCreated w \<in> set (snd (upload_handler env req))"
    and "fst (upload_handler env req) \<noteq> no_text_response"
  shows "filter is_terminated (snd (upload_handler env req)) = [WorkerTerminated w]"
  using assms
  unfolding upload_handler_def upload_try_def
  by (auto simp: Let_def is_terminated_def
      split: option.splits upload_error.splits sum.splits if_splits)

lemma upload_no_worker:
  assumes "\<forall>w. WorkerCreated w \<notin> set (snd (upload_handler env req))"
  shows "filter is_terminated (snd (upload_handler env req)) = []"
  using assms
  unfolding upload_handler_def upload_try_def
  by (auto simp: Let_def is_terminated_def
      split: option.splits upload_error.splits sum.splits if_splits)


lemma upload_data_fields:
  "\<not> falsy (field ''textExtraction'' (upload_data env f raw analysis))"
  "\<not> falsy (field ''analysis'' (upload_data env f raw analysis))"
  "\<not> falsy (upload_data env f raw analysis)"
  by (simp_all add: upload_data_def field_obj text_extraction_def)

lemma template_throws:
  "length ms \<le> length hs \<Longrightarrow> Inl e \<in> set ms \<Longrightarrow> \<exists>e'. template hs ms = Inl e'"
proof (induction hs ms rule: template.induct)
  case (1 h hs m ms)
  show ?case
  proof (cases m)
    case (Inl a)
    then show ?thesis by simp
  next
    case (Inr s)
    then have "Inl e \<in> set ms" using 1(3) by auto
    moreover have "length ms \<le> length hs" using 1(2) by simp
    ultimately obtain e' where "template hs ms = Inl e'" using 1(1)[OF Inr] by blast
    then show ?thesis using Inr by simp
  qed
qed auto

lemma get_prop_not_object:
  "is_json_object v = False \<Longrightarrow> v \<noteq> JUndefined \<Longrightarrow> v \<noteq> JNull \<Longrightarrow> get_prop v k = Inr JUndefined"
  by (cases v) auto

lemma get_prop_nullish: "v = JUndefined \<or> v = JNull \<Longrightarrow> \<exists>e. get_prop v k = Inl e"
  by auto

lemma chat_prompt_throws:
  assumes "\<not> falsy ctx"
    and "field ''textExtraction'' ctx = JUndefined \<or> field ''textExtraction'' ctx = JNull
       \<or> is_json_object (field ''analysis'' ctx) = False"
  shows "\<exists>e. chat_system_prompt env ctx = Inl e"
proof -
  have g: "get_prop ctx k = Inr (field k ctx)" for k
    using assms(1) by (simp add: get_prop_truthy)
  have "\<exists>e. Inl e \<in> set
       [interp env (read2 ctx ''textExtraction'' ''raw''),
        interp env (read2 ctx ''analysis'' ''summary''),
        interp env (read2 ctx ''analysis'' ''sentiment''),
        interp env (bind_e (read2 ctx ''analysis'' ''topics'') (call_join env)),
        interp env (read2 ctx ''analysis'' ''language'')]"
  proof (cases "field ''textExtraction'' ctx = JUndefined \<or> field ''textExtraction'' ctx = JNull")
    case True
    then obtain e where "get_prop (field ''textExtraction'' ctx) ''raw'' = Inl e"
      using get_prop_nullish by blast
    then have "interp env (read2 ctx ''textExtraction'' ''raw'') = Inl e"
      by (simp add: interp_def read2_def bind_e_def g)
    then show ?thesis by auto
  next
    case False
    then have no: "is_json_object (field ''analysis'' ctx) = False"
      using assms(2) by simp
    show ?thesis
    proof (cases "field ''analysis'' ctx = JUndefined \<or> field ''analysis'' ctx = JNull")
      case True
      then obtain e where "get_prop (field ''analysis'' ctx) ''summary'' = Inl e"
        using get_prop_nullish by blast
      then have "interp env (read2 ctx ''analysis'' ''summary'') = Inl e"
        by (simp add: interp_def read2_def bind_e_def g)
      then show ?thesis by auto
    next
      case False
      then have "get_prop (field ''analysis'' ctx) ''topics'' = Inr JUndefined"
        using no by (simp add: get_prop_not_object)
      then have "\<exists>e. interp env (bind_e (read2 ctx ''analysis'' ''topics'') (call_join env)) = Inl e"
        by (simp add: interp_def read2_def bind_e_def g)
      then show ?thesis by auto
    qed
  qed
  then obtain e where "Inl e \<in> set
       [interp env (read2 ctx ''textExtraction'' ''raw''),
        interp env (read2 ctx ''analysis'' ''summary''),
        interp env (read2 ctx ''analysis'' ''sentiment''),
        interp env (bind_e (read2 ctx ''analysis'' ''topics'') (call_join env)),
        interp env (read2 ctx ''analysis'' ''language'')]" by blast
  then show ?thesis
    unfolding chat_system_prompt_def by (rule template_throws[rotated]) simp
qed


lemma sample_prompt: "\<exists>p. ask_system_prompt (sample_env ocr reply) sample_context = Inr p"
  by (simp add: ask_system_prompt_def sample_context_def interp_def or_default_def read2_def
       bind_e_def topics_joined_def js_or_def jstr_def jnat_def sample_env_def element_string_def)

lemma sample_ask_reaches_model:
  "\<exists>r. CompletionRequested r \<in> set (snd (ask_handler (sample_env ocr reply) sample_body))"
proof -
  obtain p where p: "ask_system_prompt (sample_env ocr reply) sample_context = Inr p"
    using sample_prompt by blast
  have rf: "request_fields sample_body = Inr (sample_question, sample_context)"
    by (simp add: sample_body_def bind_e_def)
  have q: "\<not> falsy sample_question"
    by (simp add: sample_question_def jstr_def lit_def)
  have c: "\<not> falsy sample_context" by (simp add: sample_context_def)
  have t: "\<not> falsy (field ''textExtraction'' sample_context)"
    by (simp add: sample_context_def field_obj)
  have a: "\<not> falsy (field ''analysis'' sample_context)"
    by (simp add: sample_context_def field_obj)
  have cc: "completions_create (sample_env ocr reply) (ask_request p sample_question) = Inr reply"
    by (simp add: sample_env_def)
  have "snd (ask_handler (sample_env ocr reply) sample_body) =
          [CompletionRequested (ask_request p sample_question)]"
    unfolding ask_checked[OF rf q c t a] by (simp add: p cc)
  then show ?thesis by simp
qed

lemma text_not_object_prompt:
  "\<exists>p. chat_system_prompt prose_env context_text_not_object = Inr p"
  by (simp add: chat_system_prompt_def context_text_not_object_def interp_def read2_def
       bind_e_def jstr_def prose_env_def sample_env_def element_string_def)

lemma blank_run:
  "req_err sample_upload = None"
  "req_file sample_upload = Some sample_file"
  "fs_access blank_env (path sample_file) = Inr ()"
  "createWorker blank_env = Inr 1"
  "recognize blank_env 1 (path sample_file) = Inr (lit ''   '')"
  "js_trim (lit ''   '') = []"
  by (simp_all add: sample_upload_def blank_env_def sample_env_def js_trim_def is_ws_def
        lit_def)

section \<open>The claims\<close>

text \<open>
  C1. Whenever an /ask request has reached the model and the content of the reply fails
  to parse, the endpoint answers 200 with \<^verbatim>\<open>status: 'success'\<close> and the degraded
  analysis: \<^verbatim>\<open>answer\<close> is the explanatory prefix, then the first 500 code units of the
  raw reply, then a closing \<^verbatim>\<open>...\<close>; \<^verbatim>\<open>evidence\<close> and \<^verbatim>\<open>relatedTopics\<close> are empty,
  \<^verbatim>\<open>confidence\<close> is \<^verbatim>\<open>Low\<close>, and \<^verbatim>\<open>suggestions\<close> holds the one canned hint. The parse
  failure never becomes an error response.
\<close>

theorem ask_parse_failure_fallback:
  assumes "CompletionRequested r \<in> set (snd (ask_handler env b))"
    and "completions_create env r = Inr c"
    and "parse_content env c = Inl e"
  shows "\<exists>raw. c = Some raw \<and>
    fst (ask_handler env b) =
      \<lparr>status = 200,
       body = JObj [(''status'', jstr ''success''),
                    (''timestamp'', JStr (toISOString_now env)),
                    (''question'', field ''question'' b),
                    (''analysis'',
                       JObj [(''answer'',
                                JStr (lit ''I couldn't format the answer properly, but here's the raw response: ''
                                      @ take 500 raw @ lit ''...'')),
                             (''evidence'', JArr []),
                             (''confidence'', jstr ''Low''),
                             (''relatedTopics'', JArr []),
                             (''suggestions'',
                                JArr [jstr ''Try asking a more specific question''])])]\<rparr>"
proof -
  obtain raw where raw: "c = Some raw"
    using assms(3) by (cases c) (auto simp: parse_content_def)
  have "ask_parse env (field ''question'' b) c =
          Inr (ask_success_response env (field ''question'' b) (fallback_analysis raw))"
    using assms(3) raw by (simp add: ask_parse_def)
  then have "fst (ask_handler env b) =
          ask_success_response env (field ''question'' b) (fallback_analysis raw)"
    using ask_events[OF assms(1)] assms(2) by simp
  then show ?thesis using raw
    by (simp add: ask_success_response_def fallback_analysis_def fallback_answer_def
          substring0_def)
qed

theorem ask_parse_failure_fallback_witness:
  "\<exists>r raw.
      CompletionRequested r \<in> set (snd (ask_handler prose_env sample_body))
    \<and> completions_create prose_env r = Inr (Some prose_reply)
    \<and> parse_content prose_env (Some prose_reply)
         = Inl (JsError (lit ''SyntaxError'') (lit ''Unexpected token''))
    \<and> Some prose_reply = Some raw
    \<and> fst (ask_handler prose_env sample_body) =
      \<lparr>status = 200,
       body = JObj [(''status'', jstr ''success''),
                    (''timestamp'', JStr (toISOString_now prose_env)),
                    (''question'', field ''question'' sample_body),
                    (''analysis'',
                       JObj [(''answer'',
                                JStr (lit ''I couldn't format the answer properly, but here's the raw response: ''
                                      @ take 500 raw @ lit ''...'')),
                             (''evidence'', JArr []),
                             (''confidence'', jstr ''Low''),
                             (''relatedTopics'', JArr []),
                             (''suggestions'',
                                JArr [jstr ''Try asking a more specific question''])])]\<rparr>"
proof -
  obtain r where r: "CompletionRequested r \<in> set (snd (ask_handler prose_env sample_body))"
    using sample_ask_reaches_model unfolding prose_env_def by blast
  have c: "completions_create prose_env r = Inr (Some prose_reply)"
    by (simp add: prose_env_def sample_env_def)
  have e: "parse_content prose_env (Some prose_reply)
         = Inl (JsError (lit ''SyntaxError'') (lit ''Unexpected token''))"
    by (simp add: parse_content_def prose_env_def sample_env_def prose_reply_def lit_def)
  show ?thesis using r c e ask_parse_failure_fallback[OF r c e] by blast
qed

text \<open>
  C2. The claim asks for exactly one \<^verbatim>\<open>terminate\<close> on every exit path once a worker
  exists. On the empty-text path the handler calls \<^verbatim>\<open>worker.terminate()\<close> itself and
  then returns from inside the \<^verbatim>\<open>try\<close>, so the \<^verbatim>\<open>finally\<close> block, which still sees
  the worker, calls it again: the worker is terminated twice there. (On every other
  path with a worker it is terminated once: \<open>upload_terminates_once_otherwise\<close>.)
\<close>

theorem upload_empty_text_terminates_twice:
  assumes "req_err req = None" "req_file req = Some f"
    and "fs_access env (path f) = Inr u"
    and "createWorker env = Inr w"
    and "recognize env w (path f) = Inr raw"
    and "js_trim raw = []"
  shows "filter is_terminated (snd (upload_handler env req))
           = [WorkerTerminated w, WorkerTerminated w]"
  unfolding upload_no_text_run[OF assms]
  by (simp add: is_terminated_def)

theorem upload_empty_text_terminates_twice_witness:
  "req_err sample_upload = None
   \<and> req_file sample_upload = Some sample_file
   \<and> fs_access blank_env (path sample_file) = Inr ()
   \<and> createWorker blank_env = Inr 1
   \<and> recognize blank_env 1 (path sample_file) = Inr (lit ''   '')
   \<and> js_trim (lit ''   '') = []
   \<and> filter is_terminated (snd (upload_handler blank_env sample_upload))
        = [WorkerTerminated 1, WorkerTerminated 1]"
  using blank_run upload_empty_text_terminates_twice[OF blank_run]
  by blast

text \<open>
  C3 (as amended). For every /ask request whose \<^verbatim>\<open>question\<close> and \<^verbatim>\<open>analysisContext\<close>
  are both present (truthy), the endpoint answers with the 400 "Invalid analysis
  context structure" response exactly when at least one of
  \<^verbatim>\<open>analysisContext.textExtraction\<close> and \<^verbatim>\<open>analysisContext.analysis\<close> is absent or
  falsy; nothing inside the two sub-objects is looked at by the check, and no other
  400 response is possible for such a request.
\<close>

theorem ask_context_check:
  assumes "request_fields b = Inr (q, ctx)" "\<not> falsy q" "\<not> falsy ctx"
  shows "(fst (ask_handler env b) =
            \<lparr>status = 400,
             body = JObj [(''status'', jstr ''error''),
                          (''message'', jstr ''Invalid analysis context structure'')]\<rparr>)
           = (falsy (field ''textExtraction'' ctx) \<or> falsy (field ''analysis'' ctx))
       \<and> (status (fst (ask_handler env b)) = 400)
           = (falsy (field ''textExtraction'' ctx) \<or> falsy (field ''analysis'' ctx))"
proof (cases "falsy (field ''textExtraction'' ctx) \<or> falsy (field ''analysis'' ctx)")
  case True
  then show ?thesis using ask_unchecked(2)[OF assms(1) assms(2) assms(3)]
    by (simp add: invalid_context_response_def)
next
  case False
  then have "status (fst (ask_handler env b)) = 200 \<or> status (fst (ask_handler env b)) = 500"
    using ask_checked_status[OF assms] by simp
  then show ?thesis using False by auto
qed

theorem ask_context_check_witness:
  "request_fields body_without_analysis = Inr (sample_question, context_without_analysis)
   \<and> \<not> falsy sample_question
   \<and> \<not> falsy context_without_analysis
   \<and> (fst (ask_handler prose_env body_without_analysis) =
            \<lparr>status = 400,
             body = JObj [(''status'', jstr ''error''),
                          (''message'', jstr ''Invalid analysis context structure'')]\<rparr>)
           = (falsy (field ''textExtraction'' context_without_analysis)
                \<or> falsy (field ''analysis'' context_without_analysis))
   \<and> (status (fst (ask_handler prose_env body_without_analysis)) = 400)
           = (falsy (field ''textExtraction'' context_without_analysis)
                \<or> falsy (field ''analysis'' context_without_analysis))"
proof -
  have rf: "request_fields body_without_analysis
              = Inr (sample_question, context_without_analysis)"
    by (simp add: body_without_analysis_def bind_e_def)
  have q: "\<not> falsy sample_question"
    by (simp add: sample_question_def jstr_def lit_def)
  have c: "\<not> falsy context_without_analysis"
    by (simp add: context_without_analysis_def)
  show ?thesis using rf q c ask_context_check[OF rf q c, of prose_env] by simp
qed

text \<open>
  C3 as written (rejection exactly when both sub-objects are lacking) fails: a
  context that has its text-extraction sub-object and lacks only the analysis is
  rejected as well.
\<close>

theorem ask_context_check_counterexample:
  "fst (ask_handler prose_env body_without_analysis) =
     \<lparr>status = 400,
      body = JObj [(''status'', jstr ''error''),
                   (''message'', jstr ''Invalid analysis context structure'')]\<rparr>
   \<and> field ''analysisContext'' body_without_analysis = context_without_analysis
   \<and> field ''textExtraction'' context_without_analysis = JObj [(''raw'', jstr ''hi there'')]
   \<and> (falsy (field ''textExtraction'' context_without_analysis)
        \<and> falsy (field ''analysis'' context_without_analysis)) = False"
  by (simp add: ask_handler_def ask_try_def body_without_analysis_def
        context_without_analysis_def sample_question_def bind_e_def field_obj jstr_def lit_def
        invalid_context_response_def)

text \<open>
  C4. In every successful /upload response the reported \<^verbatim>\<open>wordCount\<close> is the number
  of whitespace-delimited tokens of the reported \<^verbatim>\<open>raw\<close> text and the reported
  \<^verbatim>\<open>characterCount\<close> is its length in UTF-16 code units (the \<^verbatim>\<open>length\<close> of a
  JavaScript string); both are functions of \<^verbatim>\<open>raw\<close> alone, for every code-unit
  sequence, Unicode whitespace included.
\<close>

theorem upload_counts_are_functions_of_raw:
  assumes "status (fst (upload_handler env req)) = 200"
  shows "\<exists>raw.
      at_path [''data'', ''textExtraction'', ''raw''] (body (fst (upload_handler env req)))
        = JStr raw
    \<and> at_path [''data'', ''textExtraction'', ''wordCount''] (body (fst (upload_handler env req)))
        = JNum (Fin (of_nat (length (ws_tokens raw))))
    \<and> at_path [''data'', ''textExtraction'', ''characterCount'']
          (body (fst (upload_handler env req)))
        = JNum (Fin (of_nat (length raw)))"
proof -
  obtain f raw analysis where t: "js_trim raw \<noteq> []"
    and r: "fst (upload_handler env req) = upload_success_response env f raw analysis"
    using upload_success_shape[OF assms] by blast
  have te: "at_path [''data'', ''textExtraction''] (body (fst (upload_handler env req)))
              = text_extraction raw"
    by (simp only: r success_text_extraction)
  have "js_split_ws (js_trim raw) = ws_tokens raw" using t by (rule split_trim_eq_tokens)
  then show ?thesis
    using te by (simp add: text_extraction_def field_obj jnat_def)
qed

theorem upload_counts_are_functions_of_raw_witness:
  "status (fst (upload_handler json_env sample_upload)) = 200
   \<and> (\<exists>raw.
      at_path [''data'', ''textExtraction'', ''raw'']
          (body (fst (upload_handler json_env sample_upload)))
        = JStr raw
    \<and> at_path [''data'', ''textExtraction'', ''wordCount'']
          (body (fst (upload_handler json_env sample_upload)))
        = JNum (Fin (of_nat (length (ws_tokens raw))))
    \<and> at_path [''data'', ''textExtraction'', ''characterCount'']
          (body (fst (upload_handler json_env sample_upload)))
        = JNum (Fin (of_nat (length raw))))"
  using sample_upload_succeeds
    upload_counts_are_functions_of_raw[OF sample_upload_succeeds]
  by simp

text \<open>
  C5. When the OCR engine returns a text that is empty after trimming, /upload answers
  400 with the message "No text could be extracted from the image"; this is not the
  response of an engine error (which is the 500 "Error processing image"), the body
  carries no \<^verbatim>\<open>data\<close> (no text extraction, no analysis), and the model is never
  called.
\<close>

theorem upload_no_text_rejected:
  assumes "req_err req = None" "req_file req = Some f"
    and "fs_access env (path f) = Inr u"
    and "createWorker env = Inr w"
    and "recognize env w (path f) = Inr raw"
    and "js_trim raw = []"
  shows "fst (upload_handler env req) =
      \<lparr>status = 400,
       body = JObj [(''status'', jstr ''error''),
                    (''message'', jstr ''No text could be extracted from the image'')]\<rparr>
    \<and> (\<forall>e. fst (upload_handler env req) \<noteq> processing_error_response env e)
    \<and> at_path [''data''] (body (fst (upload_handler env req))) = JUndefined
    \<and> filter is_completion (snd (upload_handler env req)) = []"
  unfolding upload_no_text_run[OF assms]
  by (simp add: no_text_response_def processing_error_response_def field_obj
        is_completion_def)

theorem upload_no_text_rejected_witness:
  "req_err sample_upload = None
   \<and> req_file sample_upload = Some sample_file
   \<and> fs_access blank_env (path sample_file) = Inr ()
   \<and> createWorker blank_env = Inr 1
   \<and> recognize blank_env 1 (path sample_file) = Inr (lit ''   '')
   \<and> js_trim (lit ''   '') = []
   \<and> fst (upload_handler blank_env sample_upload) =
      \<lparr>status = 400,
       body = JObj [(''status'', jstr ''error''),
                    (''message'', jstr ''No text could be extracted from the image'')]\<rparr>
   \<and> (\<forall>e. fst (upload_handler blank_env sample_upload)
              \<noteq> processing_error_response blank_env e)
   \<and> at_path [''data''] (body (fst (upload_handler blank_env sample_upload))) = JUndefined
   \<and> filter is_completion (snd (upload_handler blank_env sample_upload)) = []"
  using blank_run upload_no_text_rejected[OF blank_run]
  by blast

text \<open>
  C6. In /upload a failure to parse the content of the model's reply is not recovered:
  it is caught by the handler's only \<^verbatim>\<open>catch\<close> and answered with the generic 500
  "Error processing image" response carrying the parse error's name and message. The
  same reply given to an /ask request that reached the model is answered with 200.
\<close>

theorem upload_parse_failure_not_recovered:
  assumes "CompletionRequested r \<in> set (snd (upload_handler env req))"
    and "completions_create env r = Inr c"
    and "parse_content env c = Inl e"
  shows "fst (upload_handler env req) =
      \<lparr>status = 500,
       body = JObj [(''status'', jstr ''error''),
                    (''message'', jstr ''Error processing image''),
                    (''error'', JObj [(''type'', JStr (err_name e)),
                                      (''details'', JStr (err_message e)),
                                      (''timestamp'', JStr (toISOString_now env))])]\<rparr>
    \<and> (CompletionRequested r' \<in> set (snd (ask_handler env b))
         \<and> completions_create env r' = Inr c
       \<longrightarrow> status (fst (ask_handler env b)) = 200)"
proof
  show "fst (upload_handler env req) =
      \<lparr>status = 500,
       body = JObj [(''status'', jstr ''error''),
                    (''message'', jstr ''Error processing image''),
                    (''error'', JObj [(''type'', JStr (err_name e)),
                                      (''details'', JStr (err_message e)),
                                      (''timestamp'', JStr (toISOString_now env))])]\<rparr>"
    using upload_events[OF assms]
    by (simp add: processing_error_response_def)
  show "CompletionRequested r' \<in> set (snd (ask_handler env b))
         \<and> completions_create env r' = Inr c
       \<longrightarrow> status (fst (ask_handler env b)) = 200"
  proof
    assume h: "CompletionRequested r' \<in> set (snd (ask_handler env b))
         \<and> completions_create env r' = Inr c"
    obtain raw where raw: "c = Some raw"
      using assms(3) by (cases c) (auto simp: parse_content_def)
    have "ask_parse env (field ''question'' b) c =
          Inr (ask_success_response env (field ''question'' b) (fallback_analysis raw))"
      using assms(3) raw by (simp add: ask_parse_def)
    then show "status (fst (ask_handler env b)) = 200"
      using ask_events[of r' env b] h by (simp add: ask_success_response_def)
  qed
qed

theorem upload_parse_failure_not_recovered_witness:
  "\<exists>r'.
      CompletionRequested (analysis_request (lit ''hi  there''))
        \<in> set (snd (upload_handler prose_env sample_upload))
    \<and> completions_create prose_env (analysis_request (lit ''hi  there''))
        = Inr (Some prose_reply)
    \<and> parse_content prose_env (Some prose_reply)
        = Inl (JsError (lit ''SyntaxError'') (lit ''Unexpected token''))
    \<and> fst (upload_handler prose_env sample_upload) =
      \<lparr>status = 500,
       body = JObj [(''status'', jstr ''error''),
                    (''message'', jstr ''Error processing image''),
                    (''error'', JObj [(''type'', JStr (lit ''SyntaxError'')),
                                      (''details'', JStr (lit ''Unexpected token'')),
                                      (''timestamp'', JStr (toISOString_now prose_env))])]\<rparr>
    \<and> CompletionRequested r' \<in> set (snd (ask_handler prose_env sample_body))
    \<and> completions_create prose_env r' = Inr (Some prose_reply)
    \<and> status (fst (ask_handler prose_env sample_body)) = 200"
proof -
  obtain r' where r': "CompletionRequested r' \<in> set (snd (ask_handler prose_env sample_body))"
    using sample_ask_reaches_model unfolding prose_env_def by blast
  have c': "completions_create prose_env r' = Inr (Some prose_reply)"
    by (simp add: prose_env_def sample_env_def)
  have r: "CompletionRequested (analysis_request (lit ''hi  there''))
             \<in> set (snd (upload_handler prose_env sample_upload))"
    by (simp add: upload_handler_def upload_try_def prose_env_def sample_env_def
          sample_upload_def sample_file_def lit_def js_trim_def is_ws_def Let_def
        split: sum.splits)
  have c: "completions_create prose_env (analysis_request (lit ''hi  there''))
             = Inr (Some prose_reply)"
    by (simp add: prose_env_def sample_env_def)
  have e: "parse_content prose_env (Some prose_reply)
         = Inl (JsError (lit ''SyntaxError'') (lit ''Unexpected token''))"
    by (simp add: parse_content_def prose_env_def sample_env_def prose_reply_def lit_def)
  show ?thesis
    using r c e r' c'
      upload_parse_failure_not_recovered[OF r c e, of r' sample_body]
    by auto
qed




text \<open>
  C8. Round trip: the \<^verbatim>\<open>data\<close> object of any successful /upload response, sent back
  unchanged as the \<^verbatim>\<open>analysisContext\<close> of an /ask request (with any question, under any
  environment), is never answered with the "Invalid analysis context structure"
  response; the request is answered 400 only if its question is missing.
\<close>

theorem upload_data_accepted_by_ask:
  assumes "status (fst (upload_handler env req)) = 200"
  shows "fst (ask_handler env'
            (JObj [(''question'', q),
                   (''analysisContext'',
                      at_path [''data''] (body (fst (upload_handler env req))))]))
           \<noteq> invalid_context_response
    \<and> (status (fst (ask_handler env'
            (JObj [(''question'', q),
                   (''analysisContext'',
                      at_path [''data''] (body (fst (upload_handler env req))))])))
          = 400) = falsy q"
proof -
  obtain f raw analysis where
    r: "fst (upload_handler env req) = upload_success_response env f raw analysis"
    using upload_success_shape[OF assms] by blast
  define ctx where "ctx = upload_data env f raw analysis"
  have d: "at_path [''data''] (body (fst (upload_handler env req))) = ctx"
    by (simp add: r upload_success_response_def field_obj ctx_def)
  define b where "b = JObj [(''question'', q), (''analysisContext'', ctx)]"
  have rf: "request_fields b = Inr (q, ctx)"
    by (simp add: b_def bind_e_def)
  have c: "\<not> falsy ctx" "\<not> falsy (field ''textExtraction'' ctx)"
    "\<not> falsy (field ''analysis'' ctx)"
    by (simp_all add: ctx_def upload_data_fields)
  have "fst (ask_handler env' b) \<noteq> invalid_context_response
      \<and> (status (fst (ask_handler env' b)) = 400) = falsy q"
  proof (cases "falsy q")
    case True
    then have "ask_handler env' b = (missing_fields_response, [])"
      using ask_unchecked(1)[OF rf] by simp
    then show ?thesis using True
      by (simp add: missing_fields_response_def invalid_context_response_def jstr_def lit_def)
  next
    case False
    then have "status (fst (ask_handler env' b)) = 200 \<or> status (fst (ask_handler env' b)) = 500"
      using ask_checked_status[OF rf False c] by simp
    then show ?thesis using False by (auto simp: invalid_context_response_def)
  qed
  then show ?thesis unfolding d b_def .
qed

theorem upload_data_accepted_by_ask_witness:
  "status (fst (upload_handler json_env sample_upload)) = 200
   \<and> fst (ask_handler prose_env
            (JObj [(''question'', sample_question),
                   (''analysisContext'',
                      at_path [''data''] (body (fst (upload_handler json_env sample_upload))))]))
           \<noteq> invalid_context_response
   \<and> (status (fst (ask_handler prose_env
            (JObj [(''question'', sample_question),
                   (''analysisContext'',
                      at_path [''data''] (body (fst (upload_handler json_env sample_upload))))])))
          = 400) = falsy sample_question"
  using sample_upload_succeeds
    upload_data_accepted_by_ask[OF sample_upload_succeeds, of prose_env sample_question]
  by simp

text \<open>
  C9 (as amended). /chat checks the presence of \<^verbatim>\<open>analysisContext\<close> and nothing of its
  structure: for every /chat request whose \<^verbatim>\<open>question\<close> and \<^verbatim>\<open>analysisContext\<close> are
  both present (truthy) and whose context has no \<^verbatim>\<open>textExtraction\<close> property (it is
  absent or \<^verbatim>\<open>null\<close>) or has no \<^verbatim>\<open>analysis\<close> sub-object (it is absent, \<^verbatim>\<open>null\<close>, or
  anything that is not a JSON object), building the system prompt throws, no call to
  the model is issued, and the caller receives the generic 500 "Error processing chat
  request" response with the thrown error's message, not a 400.
\<close>

theorem chat_malformed_context_throws:
  assumes "request_fields b = Inr (q, ctx)" "\<not> falsy q" "\<not> falsy ctx"
    and "field ''textExtraction'' ctx = JUndefined \<or> field ''textExtraction'' ctx = JNull
       \<or> is_json_object (field ''analysis'' ctx) = False"
  shows "\<exists>e. chat_system_prompt env ctx = Inl e
    \<and> chat_handler env b =
           (\<lparr>status = 500,
             body = JObj [(''status'', jstr ''error''),
                          (''message'', jstr ''Error processing chat request''),
                          (''error'', JStr (err_message e))]\<rparr>,
            [])"
proof -
  obtain e where e: "chat_system_prompt env ctx = Inl e"
    using chat_prompt_throws[OF assms(3,4)] by blast
  have "chat_handler env b = (chat_error_response e, [])"
    using assms(1,2,3) e by (simp add: chat_handler_def chat_try_def)
  then show ?thesis using e by (auto simp: chat_error_response_def)
qed

theorem chat_malformed_context_throws_witness:
  "request_fields body_with_empty_context = Inr (sample_question, JObj [])
   \<and> \<not> falsy sample_question
   \<and> \<not> falsy (JObj [])
   \<and> (field ''textExtraction'' (JObj []) = JUndefined \<or> field ''textExtraction'' (JObj []) = JNull
       \<or> is_json_object (field ''analysis'' (JObj [])) = False)
   \<and> (\<exists>e. chat_system_prompt prose_env (JObj []) = Inl e
    \<and> chat_handler prose_env body_with_empty_context =
           (\<lparr>status = 500,
             body = JObj [(''status'', jstr ''error''),
                          (''message'', jstr ''Error processing chat request''),
                          (''error'', JStr (err_message e))]\<rparr>,
            []))"
proof -
  have rf: "request_fields body_with_empty_context = Inr (sample_question, JObj [])"
    by (simp add: body_with_empty_context_def bind_e_def)
  have q: "\<not> falsy sample_question"
    by (simp add: sample_question_def jstr_def lit_def)
  have c: "\<not> falsy (JObj [])" by simp
  have l: "field ''textExtraction'' (JObj []) = JUndefined
       \<or> field ''textExtraction'' (JObj []) = JNull
       \<or> is_json_object (field ''analysis'' (JObj [])) = False"
    by (simp add: field_obj)
  show ?thesis
    using rf q c l chat_malformed_context_throws[OF rf q c l, of prose_env] by blast
qed

text \<open>
  C9 as written fails at two kinds of request. One whose \<^verbatim>\<open>question\<close> is omitted is
  stopped by the presence check and answered 400, although its context is present and
  lacks both sub-objects. And one whose \<^verbatim>\<open>textExtraction\<close> is present but is not an
  object (here a string) lacks the sub-object, yet reading \<^verbatim>\<open>.raw\<close> of it gives
  \<^verbatim>\<open>undefined\<close> without throwing: the model is called and the answer is 200.
\<close>

theorem chat_malformed_context_counterexample:
  "falsy (field ''analysisContext'' body_without_question) = False
   \<and> field ''textExtraction'' (field ''analysisContext'' body_without_question) = JUndefined
   \<and> field ''analysis'' (field ''analysisContext'' body_without_question) = JUndefined
   \<and> chat_handler prose_env body_without_question =
       (\<lparr>status = 400,
         body = JObj [(''status'', jstr ''error''),
                      (''message'', jstr ''Question and analysis context are required'')]\<rparr>,
        [])
   \<and> falsy (field ''question'' body_text_not_object) = False
   \<and> falsy (field ''analysisContext'' body_text_not_object) = False
   \<and> field ''textExtraction'' (field ''analysisContext'' body_text_not_object) = jstr ''abc''
   \<and> is_json_object (field ''textExtraction'' (field ''analysisContext'' body_text_not_object))
        = False
   \<and> fst (chat_handler prose_env body_text_not_object) =
       \<lparr>status = 200,
        body = JObj [(''status'', jstr ''success''), (''response'', JStr prose_reply)]\<rparr>
   \<and> filter is_completion (snd (chat_handler prose_env body_text_not_object)) \<noteq> []"
proof -
  obtain p where p: "chat_system_prompt prose_env context_text_not_object = Inr p"
    using text_not_object_prompt by blast
  have rf: "request_fields body_text_not_object = Inr (sample_question, context_text_not_object)"
    by (simp add: body_text_not_object_def bind_e_def)
  have q: "\<not> falsy sample_question"
    by (simp add: sample_question_def jstr_def lit_def)
  have c: "\<not> falsy context_text_not_object"
    by (simp add: context_text_not_object_def)
  have cc: "completions_create prose_env (chat_request p sample_question) = Inr (Some prose_reply)"
    by (simp add: prose_env_def sample_env_def)
  have run: "chat_handler prose_env body_text_not_object =
      (chat_success_response (Some prose_reply), [CompletionRequested (chat_request p sample_question)])"
    by (simp add: chat_handler_def chat_try_def rf q c p cc Let_def)
  have a: "falsy (field ''analysisContext'' body_without_question) = False
   \<and> field ''textExtraction'' (field ''analysisContext'' body_without_question) = JUndefined
   \<and> field ''analysis'' (field ''analysisContext'' body_without_question) = JUndefined
   \<and> chat_handler prose_env body_without_question =
       (\<lparr>status = 400,
         body = JObj [(''status'', jstr ''error''),
                      (''message'', jstr ''Question and analysis context are required'')]\<rparr>,
        [])"
    by (simp add: chat_handler_def chat_try_def body_without_question_def bind_e_def field_obj
        missing_fields_response_def)
  have b: "falsy (field ''question'' body_text_not_object) = False
   \<and> falsy (field ''analysisContext'' body_text_not_object) = False
   \<and> field ''textExtraction'' (field ''analysisContext'' body_text_not_object) = jstr ''abc''
   \<and> is_json_object (field ''textExtraction'' (field ''analysisContext'' body_text_not_object))
        = False"
    using q c
    by (simp add: body_text_not_object_def field_obj context_text_not_object_def jstr_def)
  have d: "fst (chat_handler prose_env body_text_not_object) =
       \<lparr>status = 200,
        body = JObj [(''status'', jstr ''success''), (''response'', JStr prose_reply)]\<rparr>
   \<and> filter is_completion (snd (chat_handler prose_env body_text_not_object)) \<noteq> []"
    unfolding run by (simp add: chat_success_response_def content_value_def is_completion_def)
  show ?thesis using a b d by blast
qed

text \<open>
  C10. In every successful /upload response \<^verbatim>\<open>wordCount\<close> and \<^verbatim>\<open>characterCount\<close> are
  both at least 1: a text that is empty after trimming never reaches the metrics.
\<close>

theorem upload_counts_positive:
  assumes "status (fst (upload_handler env req)) = 200"
  shows "\<exists>wc cc.
      at_path [''data'', ''textExtraction'', ''wordCount''] (body (fst (upload_handler env req)))
        = JNum (Fin (of_nat wc))
    \<and> 1 \<le> wc
    \<and> at_path [''data'', ''textExtraction'', ''characterCount'']
          (body (fst (upload_handler env req)))
        = JNum (Fin (of_nat cc))
    \<and> 1 \<le> cc"
proof -
  obtain f raw analysis where t: "js_trim raw \<noteq> []"
    and r: "fst (upload_handler env req) = upload_success_response env f raw analysis"
    using upload_success_shape[OF assms] by blast
  have te: "at_path [''data'', ''textExtraction''] (body (fst (upload_handler env req)))
              = text_extraction raw"
    by (simp only: r success_text_extraction)
  have wc: "1 \<le> length (js_split_ws (js_trim raw))"
    using split_nonempty[of "js_trim raw"] by (cases "js_split_ws (js_trim raw)") auto
  have cc: "1 \<le> length raw"
    using trim_nonempty_imp[OF t] by (cases raw) auto
  have "at_path [''data'', ''textExtraction'', ''wordCount''] (body (fst (upload_handler env req)))
          = JNum (Fin (of_nat (length (js_split_ws (js_trim raw)))))"
    using te by (simp add: text_extraction_def field_obj jnat_def)
  moreover have "at_path [''data'', ''textExtraction'', ''characterCount'']
          (body (fst (upload_handler env req))) = JNum (Fin (of_nat (length raw)))"
    using te by (simp add: text_extraction_def field_obj jnat_def)
  ultimately show ?thesis using wc cc by blast
qed

theorem upload_counts_positive_witness:
  "status (fst (upload_handler json_env sample_upload)) = 200
   \<and> (\<exists>wc cc.
      at_path [''data'', ''textExtraction'', ''wordCount'']
          (body (fst (upload_handler json_env sample_upload)))
        = JNum (Fin (of_nat wc))
    \<and> 1 \<le> wc
    \<and> at_path [''data'', ''textExtraction'', ''characterCount'']
          (body (fst (upload_handler json_env sample_upload)))
        = JNum (Fin (of_nat cc))
    \<and> 1 \<le> cc)"
  using sample_upload_succeeds upload_counts_positive[OF sample_upload_succeeds]
  by simp

end
